theory Spec2Isabelle
  imports Main "HOL-Library.Sublist"
begin

section \<open>The image-upload button of the chat UI\<close>

text \<open>
  A shallow embedding of \<^verbatim>\<open>components/Chat/ImageUploadButton.tsx\<close>: the React
  component \<^verbatim>\<open>ImageUploadButton\<close> with its two handlers
  \<^verbatim>\<open>triggerFileUpload\<close> (the button's \<^verbatim>\<open>onClick\<close>) and
  \<^verbatim>\<open>handleFileChange\<close> (the hidden input's \<^verbatim>\<open>onChange\<close>), and the
  \<^verbatim>\<open>onload\<close> closure that \<^verbatim>\<open>handleFileChange\<close> installs on its
  \<^verbatim>\<open>FileReader\<close>.

  JavaScript strings are modelled as \<^typ>\<open>string\<close>, by their UTF-8 encoding. Equality,
  emptiness and splitting at the ASCII character \<^verbatim>\<open>/\<close> agree with what JavaScript
  computes on UTF-16 code units.
\<close>

subsection \<open>Data\<close>

text \<open>
  A \<^verbatim>\<open>File\<close> object as the handlers see it: its name, its declared MIME
  type and its byte size (an unsigned integer of the platform; the comparison with
  \<open>2 * 1024 * 1024\<close> is exact on JavaScript numbers).
\<close>

record js_file =
  file_name :: string
  file_type :: string
  file_size :: nat

text \<open>
  The hidden \<^verbatim>\<open><input type="file">\<close>: its \<^verbatim>\<open>value\<close> and its
  \<^verbatim>\<open>files\<close> (\<open>None\<close> is \<^verbatim>\<open>null\<close>).
\<close>

record input_element =
  input_value :: string
  input_files :: "js_file list option"

text \<open>
  The props of the component. The callback \<^verbatim>\<open>onImageSelect\<close> belongs to the
  parent; calling it is recorded in the state (field \<open>calls\<close> below).
\<close>

record props =
  disabled :: bool
  className :: string

text \<open>
  What the handlers read and change:
  \<^item> \<open>input\<close>: the hidden input element, the target of every change event;
  \<^item> \<open>ref_attached\<close>: whether \<^verbatim>\<open>fileInputRef.current\<close> holds that element
    (it is \<^verbatim>\<open>null\<close> until the component is mounted);
  \<^item> \<open>picker_opens\<close>: how often \<^verbatim>\<open>click()\<close> opened the file-selection surface;
  \<^item> \<open>alerts\<close>: the texts shown by \<^verbatim>\<open>alert\<close>, oldest first;
  \<^item> \<open>pending\<close>: the readers with a read in flight, each given by the file that its
    \<^verbatim>\<open>onload\<close> closure has captured;
  \<^item> \<open>calls\<close>: the invocations of \<^verbatim>\<open>onImageSelect\<close>, oldest first.
\<close>

record state =
  input :: input_element
  ref_attached :: bool
  picker_opens :: nat
  alerts :: "string list"
  pending :: "js_file list"
  calls :: "(js_file \<times> string) list"

text \<open>A JavaScript value as far as the \<^verbatim>\<open>onload\<close> closure meets one.\<close>

datatype js_value = Undefined | Null | Str string

text \<open>
  The \<^verbatim>\<open>load\<close> event: \<open>None\<close> when its \<^verbatim>\<open>target\<close> is
  \<^verbatim>\<open>null\<close>, otherwise the \<^verbatim>\<open>result\<close> of the target reader.
\<close>

type_synonym load_event = "js_value option"

subsection \<open>Platform primitives used by the handlers\<close>

text \<open>\<^verbatim>\<open>String.prototype.split\<close> with a separator of one character.\<close>

fun js_split :: "char \<Rightarrow> string \<Rightarrow> string list" where
  "js_split sep [] = [[]]"
| "js_split sep (c # cs) =
     (if c = sep then [] # js_split sep cs
      else (case js_split sep cs of
              [] \<Rightarrow> [[c]]
            | w # ws \<Rightarrow> (c # w) # ws))"

text \<open>
  The array destructuring \<^verbatim>\<open>const [x] = arr\<close>: the first element, or
  \<^verbatim>\<open>undefined\<close> (\<open>None\<close>) for an empty array.
\<close>

definition first_of :: "'a list \<Rightarrow> 'a option" where
  "first_of arr = (case arr of [] \<Rightarrow> None | x # _ \<Rightarrow> Some x)"

text \<open>JavaScript truthiness: the empty string, \<^verbatim>\<open>null\<close> and
  \<^verbatim>\<open>undefined\<close> are falsy.\<close>

fun truthy :: "js_value \<Rightarrow> bool" where
  "truthy Undefined = False"
| "truthy Null = False"
| "truthy (Str s) = (s \<noteq> [])"

text \<open>\<^verbatim>\<open>alert(msg)\<close> shows one blocking alert.\<close>

definition alert :: "string \<Rightarrow> state \<Rightarrow> state" where
  "alert msg st = st\<lparr>alerts := alerts st @ [msg]\<rparr>"

text \<open>
  The two alert texts of the source, as the UTF-8 bytes of the literals. The first is
  the seven characters U+53EA U+652F U+6301 U+56FE U+7247 U+6587 U+4EF6 ("only image
  files are supported"); the second is U+6587 U+4EF6 U+5927 U+5C0F U+4E0D U+80FD U+8D85
  U+8FC7 followed by \<^verbatim>\<open>2MB\<close> ("the file size must not exceed 2MB").
\<close>

definition msg_only_images :: string where
  "msg_only_images =
     [CHR 0xE5, CHR 0x8F, CHR 0xAA, CHR 0xE6, CHR 0x94, CHR 0xAF, CHR 0xE6, CHR 0x8C, CHR 0x81,
      CHR 0xE5, CHR 0x9B, CHR 0xBE, CHR 0xE7, CHR 0x89, CHR 0x87, CHR 0xE6, CHR 0x96, CHR 0x87,
      CHR 0xE4, CHR 0xBB, CHR 0xB6]"

definition msg_too_large :: string where
  "msg_too_large =
     [CHR 0xE6, CHR 0x96, CHR 0x87, CHR 0xE4, CHR 0xBB, CHR 0xB6, CHR 0xE5, CHR 0xA4, CHR 0xA7,
      CHR 0xE5, CHR 0xB0, CHR 0x8F, CHR 0xE4, CHR 0xB8, CHR 0x8D, CHR 0xE8, CHR 0x83, CHR 0xBD,
      CHR 0xE8, CHR 0xB6, CHR 0x85, CHR 0xE8, CHR 0xBF, CHR 0x87] @ ''2MB''"

text \<open>
  \<^verbatim>\<open>reader.onload = ...; reader.readAsDataURL(file)\<close>: a new reader starts
  reading \<open>file\<close>; its \<^verbatim>\<open>onload\<close> closure holds \<open>file\<close>.
\<close>

definition start_read :: "js_file \<Rightarrow> state \<Rightarrow> state" where
  "start_read f st = st\<lparr>pending := pending st @ [f]\<rparr>"

text \<open>
  The assignment \<^verbatim>\<open>e.target.value = v\<close> on a file input. Setting the empty
  string also empties the element's list of selected files.
\<close>

definition set_value :: "string \<Rightarrow> state \<Rightarrow> state" where
  "set_value v st =
     st\<lparr>input := (input st)\<lparr>input_value := v,
                               input_files := (if v = [] then Some [] else input_files (input st))\<rparr>\<rparr>"

subsection \<open>The handlers\<close>

text \<open>
  \<^verbatim>\<open>triggerFileUpload\<close>: returns at once when \<^verbatim>\<open>disabled\<close>; otherwise
  \<^verbatim>\<open>fileInputRef.current?.click()\<close> opens the file-selection surface, unless the
  ref is still \<^verbatim>\<open>null\<close>.
\<close>

definition triggerFileUpload :: "props \<Rightarrow> state \<Rightarrow> state" where
  "triggerFileUpload p st =
     (if disabled p then st
      else if ref_attached st then st\<lparr>picker_opens := Suc (picker_opens st)\<rparr>
      else st)"

text \<open>\<^verbatim>\<open>e.target.files?.[0]\<close>: \<open>None\<close> is \<^verbatim>\<open>undefined\<close>.\<close>

definition chosen_file :: "input_element \<Rightarrow> js_file option" where
  "chosen_file el = (case input_files el of None \<Rightarrow> None | Some fs \<Rightarrow> first_of fs)"

text \<open>\<^verbatim>\<open>const [fileType] = file.type.split('/')\<close>.\<close>

definition fileType :: "js_file \<Rightarrow> string option" where
  "fileType f = first_of (js_split (CHR ''/'') (file_type f))"

text \<open>
  The body of \<^verbatim>\<open>reader.onload\<close>, for the closure that captured \<open>f\<close>:
  \<^verbatim>\<open>loadEvent.target?.result\<close> is passed to \<^verbatim>\<open>onImageSelect\<close> together
  with \<open>f\<close> when it is truthy. (The cast \<^verbatim>\<open>as string\<close> does nothing at run
  time; only a string reaches the call, since a reader started by
  \<^verbatim>\<open>readAsDataURL\<close> has a string or \<^verbatim>\<open>null\<close> as its result.)
\<close>

definition onload :: "props \<Rightarrow> js_file \<Rightarrow> load_event \<Rightarrow> state \<Rightarrow> state" where
  "onload p f loadEvent st =
     (let fullBase64String = (case loadEvent of None \<Rightarrow> Undefined | Some r \<Rightarrow> r)
      in if truthy fullBase64String
         then (case fullBase64String of
                 Str s \<Rightarrow> st\<lparr>calls := calls st @ [(f, s)]\<rparr>
               | _ \<Rightarrow> st)
         else st)"

text \<open>
  \<^verbatim>\<open>handleFileChange(e)\<close>, where \<^verbatim>\<open>e.target\<close> is the hidden input of the
  state. The handler never reads \<^verbatim>\<open>disabled\<close>.
\<close>

definition handleFileChange :: "props \<Rightarrow> state \<Rightarrow> state" where
  "handleFileChange p st =
     (case chosen_file (input st) of
        None \<Rightarrow> st
      | Some f \<Rightarrow>
          if fileType f \<noteq> Some ''image'' then alert msg_only_images st
          else if file_size f > 2 * 1024 * 1024 then alert msg_too_large st
          else set_value [] (start_read f st))"

subsection \<open>The browser around the component\<close>

text \<open>
  Modelled from the spec: the string that the browser's \<^verbatim>\<open>FileReader.readAsDataURL\<close>
  delivers, which is no code of the repository. The spec's glossary gives the form
  \<^verbatim>\<open>data:<mime-type>;base64,<payload>\<close>; the payload (the base64 text of the
  file's bytes) is a parameter.
\<close>

definition data_url :: "js_file \<Rightarrow> string \<Rightarrow> string" where
  "data_url f payload = ''data:'' @ file_type f @ '';base64,'' @ payload"

text \<open>
  Modelled from the spec: the delivery of a read's \<^verbatim>\<open>load\<close> event, which the
  browser does ("the browser file-read primitive guarantees single delivery of its
  result"). The reader at position \<open>i\<close> of \<open>pending\<close> finishes: it is no longer
  pending, and its \<^verbatim>\<open>onload\<close> closure runs on the event. Nothing happens when no
  such reader is in flight.
\<close>

definition read_completes :: "props \<Rightarrow> nat \<Rightarrow> load_event \<Rightarrow> state \<Rightarrow> state" where
  "read_completes p i loadEvent st =
     (if i < length (pending st)
      then onload p (pending st ! i) loadEvent
             (st\<lparr>pending := take i (pending st) @ drop (Suc i) (pending st)\<rparr>)
      else st)"

text \<open>
  The \<^verbatim>\<open>value\<close> that a file input shows for a chosen file:
  \<^verbatim>\<open>C:\<close>, a backslash, \<^verbatim>\<open>fakepath\<close>, a backslash, and the file's name.
\<close>

definition fakepath :: "js_file \<Rightarrow> string" where
  "fakepath f = ''C:'' @ [CHR 0x5C] @ ''fakepath'' @ [CHR 0x5C] @ file_name f"

text \<open>The input element holding the single chosen file \<open>f\<close>.\<close>

definition select :: "js_file \<Rightarrow> state \<Rightarrow> state" where
  "select f st = st\<lparr>input := \<lparr>input_value = fakepath f, input_files = Some [f]\<rparr>\<rparr>"

text \<open>
  Modelled from the spec: the user's choice of the file \<open>f\<close> in the file-selection
  surface, which the browser handles. A change event is raised only when the choice
  differs from what the input already stores ("the underlying input's value is cleared
  after each read so the identical file can be re-chosen and trigger a fresh event");
  the event runs \<^verbatim>\<open>handleFileChange\<close> on the input holding \<open>f\<close>.
\<close>

definition choose_file :: "props \<Rightarrow> js_file \<Rightarrow> state \<Rightarrow> state" where
  "choose_file p f st =
     (if input_value (input st) = fakepath f then st
      else handleFileChange p (select f st))"

subsection \<open>Concrete inputs\<close>

text \<open>
  The component right after mounting, with nothing chosen yet, and the files of the
  spec's scenarios: a PNG image of 500 KB, a text file of 10 KB, a JPEG image of
  3 MB, and a PDF document of 3 MB.
\<close>

definition mounted :: state where
  "mounted = \<lparr>input = \<lparr>input_value = [], input_files = Some []\<rparr>, ref_attached = True,
               picker_opens = 0, alerts = [], pending = [], calls = []\<rparr>"

definition enabled_props :: props where
  "enabled_props = \<lparr>disabled = False, className = []\<rparr>"

definition disabled_props :: props where
  "disabled_props = \<lparr>disabled = True, className = []\<rparr>"

definition png_500k :: js_file where
  "png_500k = \<lparr>file_name = ''photo.png'', file_type = ''image/png'', file_size = 512000\<rparr>"

definition txt_10k :: js_file where
  "txt_10k = \<lparr>file_name = ''notes.txt'', file_type = ''text/plain'', file_size = 10240\<rparr>"

definition jpeg_3mb :: js_file where
  "jpeg_3mb = \<lparr>file_name = ''big.jpg'', file_type = ''image/jpeg'', file_size = 3145728\<rparr>"

definition pdf_3mb :: js_file where
  "pdf_3mb = \<lparr>file_name = ''scan.pdf'', file_type = ''application/pdf'', file_size = 3145728\<rparr>"

section \<open>Properties\<close>

subsection \<open>Helper facts\<close>

text \<open>
  \<^verbatim>\<open>split\<close> never returns an empty array, and its first element is the text
  before the first separator: \<open>fileType\<close> is the MIME primary category.
\<close>

lemma js_split_not_Nil: "js_split sep s \<noteq> []"
  by (induction s) (auto split: list.splits)

lemma first_of_js_split: "first_of (js_split sep s) = Some (takeWhile (\<lambda>c. c \<noteq> sep) s)"
  by (induction s) (auto simp: first_of_def split: list.splits)

lemma fileType_takeWhile: "fileType f = Some (takeWhile (\<lambda>c. c \<noteq> CHR ''/'') (file_type f))"
  by (simp add: fileType_def first_of_js_split)

lemma fakepath_not_empty: "fakepath f \<noteq> []"
  by (simp add: fakepath_def)

lemma chosen_file_select: "chosen_file (input (select f st)) = Some f"
  by (simp add: chosen_file_def select_def first_of_def)

lemma msgs_differ: "msg_only_images \<noteq> msg_too_large"
  by (simp add: msg_only_images_def msg_too_large_def)

lemma handleFileChange_accept:
  assumes "chosen_file (input st) = Some f"
    and "fileType f = Some ''image''"
    and "file_size f \<le> 2097152"
  shows "handleFileChange p st = set_value [] (start_read f st)"
  using assms by (simp add: handleFileChange_def)

lemma handleFileChange_wrong_type:
  assumes "chosen_file (input st) = Some f"
    and "fileType f \<noteq> Some ''image''"
  shows "handleFileChange p st = alert msg_only_images st"
  using assms by (simp add: handleFileChange_def)

lemma handleFileChange_too_large:
  assumes "chosen_file (input st) = Some f"
    and "fileType f = Some ''image''"
    and "file_size f > 2097152"
  shows "handleFileChange p st = alert msg_too_large st"
  using assms by (simp add: handleFileChange_def)

lemma data_url_shape:
  "prefix ''data:'' (data_url f payload) \<and> sublist '';base64,'' (data_url f payload)"
proof
  show "prefix ''data:'' (data_url f payload)"
    unfolding data_url_def by (rule prefixI) (rule refl)
  have "data_url f payload = (''data:'' @ file_type f) @ '';base64,'' @ payload"
    by (simp add: data_url_def)
  then show "sublist '';base64,'' (data_url f payload)"
    unfolding sublist_def by blast
qed

lemma select_fields:
  "alerts (select f st) = alerts st" "pending (select f st) = pending st"
  "calls (select f st) = calls st" "picker_opens (select f st) = picker_opens st"
  "input_value (input (select f st)) = fakepath f"
  by (simp_all add: select_def)

lemma fileType_examples:
  "fileType png_500k = Some ''image''" "fileType jpeg_3mb = Some ''image''"
  "fileType txt_10k = Some ''text''" "fileType pdf_3mb = Some ''application''"
  by (simp_all add: fileType_def first_of_def png_500k_def jpeg_3mb_def txt_10k_def pdf_3mb_def)

lemma handleFileChange_png:
  "handleFileChange p (select png_500k st) = set_value [] (start_read png_500k (select png_500k st))"
proof -
  have "file_size png_500k \<le> 2097152"
    by (simp add: png_500k_def)
  with chosen_file_select fileType_examples(1) show ?thesis
    by (rule handleFileChange_accept)
qed

lemma handleFileChange_txt:
  "handleFileChange p (select txt_10k st) = alert msg_only_images (select txt_10k st)"
proof -
  have "fileType txt_10k \<noteq> Some ''image''"
    by (simp add: fileType_examples)
  with chosen_file_select show ?thesis
    by (rule handleFileChange_wrong_type)
qed

subsection \<open>Accepted files\<close>

text \<open>
  Claim C1. For every file whose MIME primary category is \<^verbatim>\<open>image\<close> and whose
  byte size is at most 2,097,152, \<^verbatim>\<open>handleFileChange\<close> starts the read (one new
  pending reader for this file, no alert, no callback yet), and once that read completes
  with the data URL of the file, \<^verbatim>\<open>onImageSelect\<close> has been called exactly once
  more, with the same file and that string; the reader is no longer pending, so it
  cannot fire again. The string begins with \<^verbatim>\<open>data:\<close> and contains
  \<^verbatim>\<open>;base64,\<close>.
\<close>

theorem image_within_limit_one_callback:
  assumes "chosen_file (input st) = Some f"
    and "fileType f = Some ''image''"
    and "file_size f \<le> 2097152"
  shows "pending (handleFileChange p st) = pending st @ [f]
       \<and> alerts (handleFileChange p st) = alerts st
       \<and> calls (handleFileChange p st) = calls st
       \<and> calls (read_completes p (length (pending st)) (Some (Str (data_url f payload)))
                  (handleFileChange p st))
           = calls st @ [(f, data_url f payload)]
       \<and> pending (read_completes p (length (pending st)) (Some (Str (data_url f payload)))
                    (handleFileChange p st))
           = pending st
       \<and> prefix ''data:'' (data_url f payload)
       \<and> sublist '';base64,'' (data_url f payload)"
proof -
  have h: "handleFileChange p st = set_value [] (start_read f st)"
    using assms by (rule handleFileChange_accept)
  have ne: "data_url f payload \<noteq> []"
    by (simp add: data_url_def)
  have fin: "read_completes p (length (pending st)) (Some (Str (data_url f payload)))
                (handleFileChange p st)
              = (set_value [] st)\<lparr>calls := calls st @ [(f, data_url f payload)]\<rparr>"
    using ne by (simp add: h read_completes_def onload_def set_value_def start_read_def)
  show ?thesis
    using data_url_shape [of f payload]
    by (simp add: fin) (simp add: h set_value_def start_read_def)
qed

text \<open>
  The PNG image of 500 KB meets the hypotheses of C1; its read delivers one callback
  with the file and its data URL.
\<close>

theorem image_within_limit_one_callback_witness:
  "chosen_file (input (select png_500k mounted)) = Some png_500k
   \<and> fileType png_500k = Some ''image''
   \<and> file_size png_500k \<le> 2097152
   \<and> pending (handleFileChange enabled_props (select png_500k mounted)) = [png_500k]
   \<and> calls (read_completes enabled_props 0 (Some (Str (data_url png_500k ''iVBORw0KGgo='')))
              (handleFileChange enabled_props (select png_500k mounted)))
       = [(png_500k, ''data:image/png;base64,iVBORw0KGgo='')]"
proof -
  have c: "chosen_file (input (select png_500k mounted)) = Some png_500k"
    by (rule chosen_file_select)
  have t: "fileType png_500k = Some ''image''"
    by (simp add: fileType_def first_of_def png_500k_def)
  have s: "file_size png_500k \<le> 2097152"
    by (simp add: png_500k_def)
  have m: "pending (select png_500k mounted) = []" "calls (select png_500k mounted) = []"
    by (simp_all add: select_def mounted_def)
  have u: "data_url png_500k ''iVBORw0KGgo='' = ''data:image/png;base64,iVBORw0KGgo=''"
    by (simp add: data_url_def png_500k_def)
  show ?thesis
    using image_within_limit_one_callback [OF c t s, of enabled_props "''iVBORw0KGgo=''"] c t s
    by (simp add: m u)
qed

subsection \<open>Rejected files\<close>

text \<open>
  Claim C2. For every file whose MIME primary category is not \<^verbatim>\<open>image\<close>,
  \<^verbatim>\<open>handleFileChange\<close> does not call \<^verbatim>\<open>onImageSelect\<close>, shows exactly
  one alert, with the text \<open>msg_only_images\<close>, and stops there: no read is started and
  nothing else of the state changes.
\<close>

theorem non_image_alert_no_callback:
  assumes "chosen_file (input st) = Some f"
    and "fileType f \<noteq> Some ''image''"
  shows "handleFileChange p st = st\<lparr>alerts := alerts st @ [msg_only_images]\<rparr>
       \<and> calls (handleFileChange p st) = calls st
       \<and> alerts (handleFileChange p st) = alerts st @ [msg_only_images]
       \<and> pending (handleFileChange p st) = pending st
       \<and> input (handleFileChange p st) = input st"
  using assms by (simp add: handleFileChange_wrong_type alert_def)

text \<open>The text file of 10 KB is rejected with the alert for unsupported types.\<close>

theorem non_image_alert_no_callback_witness:
  "chosen_file (input (select txt_10k mounted)) = Some txt_10k
   \<and> fileType txt_10k \<noteq> Some ''image''
   \<and> handleFileChange enabled_props (select txt_10k mounted)
       = (select txt_10k mounted)\<lparr>alerts := [msg_only_images]\<rparr>
   \<and> calls (handleFileChange enabled_props (select txt_10k mounted)) = []"
proof -
  have c: "chosen_file (input (select txt_10k mounted)) = Some txt_10k"
    by (rule chosen_file_select)
  have t: "fileType txt_10k \<noteq> Some ''image''"
    by (simp add: fileType_examples)
  have m: "alerts (select txt_10k mounted) = []" "calls (select txt_10k mounted) = []"
    by (simp_all add: select_def mounted_def)
  show ?thesis
    using non_image_alert_no_callback [OF c t, of enabled_props] c t
    by (simp add: m)
qed

text \<open>
  Claim C3 as stated fails for a file that is too large and not an image: the PDF
  document of 3 MB gets the alert \<open>msg_only_images\<close>, and the alert
  \<open>msg_too_large\<close> is not shown.
\<close>

theorem too_large_always_size_alert_counterexample:
  "file_size pdf_3mb > 2097152
   \<and> alerts (handleFileChange enabled_props (select pdf_3mb mounted)) = [msg_only_images]
   \<and> msg_too_large \<notin> set (alerts (handleFileChange enabled_props (select pdf_3mb mounted)))"
proof -
  have c: "chosen_file (input (select pdf_3mb mounted)) = Some pdf_3mb"
    by (rule chosen_file_select)
  have t: "fileType pdf_3mb \<noteq> Some ''image''"
    by (simp add: fileType_examples)
  have m: "alerts (select pdf_3mb mounted) = []"
    by (simp add: select_def mounted_def)
  have a: "alerts (handleFileChange enabled_props (select pdf_3mb mounted)) = [msg_only_images]"
    by (simp add: handleFileChange_wrong_type [OF c t] alert_def m)
  have s: "file_size pdf_3mb > 2097152"
    by (simp add: pdf_3mb_def)
  have n: "msg_too_large \<notin> set [msg_only_images]"
    using msgs_differ by auto
  show ?thesis
    using s n by (simp only: a) simp
qed

text \<open>
  Claim C3, amended. For every file whose byte size exceeds 2,097,152,
  \<^verbatim>\<open>handleFileChange\<close> does not call \<^verbatim>\<open>onImageSelect\<close>, starts no read
  and shows exactly one alert; when the MIME primary category is \<^verbatim>\<open>image\<close>, the
  alert is \<open>msg_too_large\<close> and nothing else of the state changes.
\<close>

theorem too_large_no_callback:
  assumes "chosen_file (input st) = Some f"
    and "file_size f > 2097152"
  shows "calls (handleFileChange p st) = calls st
       \<and> pending (handleFileChange p st) = pending st
       \<and> length (alerts (handleFileChange p st)) = Suc (length (alerts st))
       \<and> (fileType f = Some ''image'' \<longrightarrow>
            handleFileChange p st = st\<lparr>alerts := alerts st @ [msg_too_large]\<rparr>)"
proof (cases "fileType f = Some ''image''")
  case True
  with assms have "handleFileChange p st = alert msg_too_large st"
    by (simp add: handleFileChange_too_large)
  with True show ?thesis by (simp add: alert_def)
next
  case False
  with assms have "handleFileChange p st = alert msg_only_images st"
    by (simp add: handleFileChange_wrong_type)
  with False show ?thesis by (simp add: alert_def)
qed

text \<open>The JPEG image of 3 MB is rejected with the alert for the size.\<close>

theorem too_large_no_callback_witness:
  "chosen_file (input (select jpeg_3mb mounted)) = Some jpeg_3mb
   \<and> file_size jpeg_3mb > 2097152
   \<and> fileType jpeg_3mb = Some ''image''
   \<and> calls (handleFileChange enabled_props (select jpeg_3mb mounted)) = []
   \<and> handleFileChange enabled_props (select jpeg_3mb mounted)
       = (select jpeg_3mb mounted)\<lparr>alerts := [msg_too_large]\<rparr>"
proof -
  have c: "chosen_file (input (select jpeg_3mb mounted)) = Some jpeg_3mb"
    by (rule chosen_file_select)
  have s: "file_size jpeg_3mb > 2097152"
    by (simp add: jpeg_3mb_def)
  have t: "fileType jpeg_3mb = Some ''image''"
    by (simp add: fileType_examples)
  have m: "alerts (select jpeg_3mb mounted) = []" "calls (select jpeg_3mb mounted) = []"
    by (simp_all add: select_def mounted_def)
  show ?thesis
    using too_large_no_callback [OF c s, of enabled_props] c s t
    by (simp add: m)
qed

text \<open>
  Claim C4. The check of the MIME category comes before the check of the size: for
  every file that is not an image and is larger than 2,097,152 bytes, the one alert
  shown is \<open>msg_only_images\<close>, not \<open>msg_too_large\<close>; and the size is never looked
  at, since the same alert results whatever size the file has.
\<close>

theorem type_check_precedes_size_check:
  assumes "input_files (input st) = Some (f # fs)"
    and "fileType f \<noteq> Some ''image''"
    and "file_size f > 2097152"
  shows "handleFileChange p st = st\<lparr>alerts := alerts st @ [msg_only_images]\<rparr>
       \<and> msg_too_large \<notin> set [msg_only_images]
       \<and> (\<forall>n. alerts (handleFileChange p
                    (st\<lparr>input := (input st)\<lparr>input_files := Some (f\<lparr>file_size := n\<rparr> # fs)\<rparr>\<rparr>))
                = alerts st @ [msg_only_images])"
proof -
  have c: "chosen_file (input st) = Some f"
    using assms(1) by (simp add: chosen_file_def first_of_def)
  have a: "handleFileChange p st = st\<lparr>alerts := alerts st @ [msg_only_images]\<rparr>"
    using c assms(2) by (simp add: handleFileChange_wrong_type alert_def)
  have n: "msg_too_large \<notin> set [msg_only_images]"
    using msgs_differ by auto
  have r: "alerts (handleFileChange p
             (st\<lparr>input := (input st)\<lparr>input_files := Some (f\<lparr>file_size := n\<rparr> # fs)\<rparr>\<rparr>))
           = alerts st @ [msg_only_images]" for n
  proof -
    let ?g = "f\<lparr>file_size := n\<rparr>"
    let ?st = "st\<lparr>input := (input st)\<lparr>input_files := Some (?g # fs)\<rparr>\<rparr>"
    have "chosen_file (input ?st) = Some ?g"
      by (simp add: chosen_file_def first_of_def)
    moreover have "fileType ?g \<noteq> Some ''image''"
      using assms(2) by (simp add: fileType_def)
    ultimately have "handleFileChange p ?st = alert msg_only_images ?st"
      by (rule handleFileChange_wrong_type)
    then show ?thesis by (simp add: alert_def)
  qed
  show ?thesis using a n r by blast
qed

text \<open>The PDF document of 3 MB fails both checks and gets the alert of the first.\<close>

theorem type_check_precedes_size_check_witness:
  "input_files (input (select pdf_3mb mounted)) = Some [pdf_3mb]
   \<and> fileType pdf_3mb \<noteq> Some ''image''
   \<and> file_size pdf_3mb > 2097152
   \<and> handleFileChange enabled_props (select pdf_3mb mounted)
       = (select pdf_3mb mounted)\<lparr>alerts := [msg_only_images]\<rparr>"
proof -
  have i: "input_files (input (select pdf_3mb mounted)) = Some [pdf_3mb]"
    by (simp add: select_def)
  have t: "fileType pdf_3mb \<noteq> Some ''image''"
    by (simp add: fileType_examples)
  have s: "file_size pdf_3mb > 2097152"
    by (simp add: pdf_3mb_def)
  have m: "alerts (select pdf_3mb mounted) = []"
    by (simp add: select_def mounted_def)
  show ?thesis
    using type_check_precedes_size_check [OF i t s, of enabled_props] i t s
    by (simp add: m)
qed

subsection \<open>The trigger and the \<^verbatim>\<open>disabled\<close> flag\<close>

text \<open>
  Claim C5 as stated fails in its part on a later file choice: with
  \<^verbatim>\<open>disabled\<close> set, \<^verbatim>\<open>triggerFileUpload\<close> opens nothing, but a change
  event for the PNG image that follows is handled as always, and the completed read
  calls \<^verbatim>\<open>onImageSelect\<close>.
\<close>

theorem disabled_blocks_later_choice_counterexample:
  "disabled disabled_props
   \<and> picker_opens (triggerFileUpload disabled_props mounted) = 0
   \<and> calls (read_completes disabled_props 0 (Some (Str (data_url png_500k ''iVBORw0KGgo='')))
              (choose_file disabled_props png_500k (triggerFileUpload disabled_props mounted)))
       = [(png_500k, ''data:image/png;base64,iVBORw0KGgo='')]"
proof -
  have d: "disabled disabled_props"
    by (simp add: disabled_props_def)
  have t: "triggerFileUpload disabled_props mounted = mounted"
    using d by (simp add: triggerFileUpload_def)
  have v: "input_value (input mounted) \<noteq> fakepath png_500k"
    using fakepath_not_empty [of png_500k] by (simp add: mounted_def)
  have c: "choose_file disabled_props png_500k mounted
           = set_value [] (start_read png_500k (select png_500k mounted))"
    using v by (simp add: choose_file_def handleFileChange_png)
  have u: "data_url png_500k ''iVBORw0KGgo='' = ''data:image/png;base64,iVBORw0KGgo=''"
    by (simp add: data_url_def png_500k_def)
  have r: "calls (read_completes disabled_props 0 (Some (Str ''data:image/png;base64,iVBORw0KGgo=''))
             (set_value [] (start_read png_500k (select png_500k mounted))))
           = [(png_500k, ''data:image/png;base64,iVBORw0KGgo='')]"
    by (simp add: read_completes_def onload_def set_value_def start_read_def select_def mounted_def)
  have o: "picker_opens mounted = 0"
    by (simp add: mounted_def)
  show ?thesis
    using d o r by (simp add: t c u)
qed

text \<open>
  Claim C5, amended. When \<^verbatim>\<open>disabled\<close> is true, \<^verbatim>\<open>triggerFileUpload\<close>
  changes nothing: the file-selection surface is not opened. When it is false and the
  component is mounted, \<^verbatim>\<open>triggerFileUpload\<close> opens the file-selection surface
  once. In both cases \<^verbatim>\<open>triggerFileUpload\<close> itself calls no callback and starts
  no read. \<^verbatim>\<open>handleFileChange\<close> does not depend on \<^verbatim>\<open>disabled\<close>.
\<close>

theorem triggerFileUpload_gated_by_disabled:
  "(disabled p \<longrightarrow> triggerFileUpload p st = st)
   \<and> (\<not> disabled p \<and> ref_attached st \<longrightarrow>
        triggerFileUpload p st = st\<lparr>picker_opens := Suc (picker_opens st)\<rparr>)
   \<and> calls (triggerFileUpload p st) = calls st
   \<and> pending (triggerFileUpload p st) = pending st
   \<and> handleFileChange (p\<lparr>disabled := b\<rparr>) st = handleFileChange p st"
  by (simp add: triggerFileUpload_def handleFileChange_def)

text \<open>On the mounted component: disabled, nothing changes; enabled, one opening.\<close>

theorem triggerFileUpload_gated_by_disabled_witness:
  "disabled disabled_props
   \<and> triggerFileUpload disabled_props mounted = mounted
   \<and> \<not> disabled enabled_props \<and> ref_attached mounted
   \<and> picker_opens (triggerFileUpload enabled_props mounted) = 1"
proof -
  have d: "disabled disabled_props"
    by (simp add: disabled_props_def)
  have e: "\<not> disabled enabled_props"
    by (simp add: enabled_props_def)
  have r: "ref_attached mounted" "picker_opens mounted = 0"
    by (simp_all add: mounted_def)
  show ?thesis
    using triggerFileUpload_gated_by_disabled [of disabled_props mounted]
      triggerFileUpload_gated_by_disabled [of enabled_props mounted] d e r
    by simp
qed

subsection \<open>Reads without a usable result\<close>

text \<open>
  Claim C6. When the \<^verbatim>\<open>load\<close> event brings no usable result (no target, an
  undefined or \<^verbatim>\<open>null\<close> result, or the empty string), the
  \<^verbatim>\<open>onload\<close> closure changes nothing: no callback, no alert, no other trace. So
  the completion of such a read leaves the callbacks and the alerts as they were.
\<close>

theorem unusable_result_silent:
  assumes "ev = None \<or> ev = Some Undefined \<or> ev = Some Null \<or> ev = Some (Str [])"
  shows "onload p f ev st = st
       \<and> calls (read_completes p i ev st) = calls st
       \<and> alerts (read_completes p i ev st) = alerts st"
proof -
  have o: "onload p g ev s = s" for g s
    using assms by (auto simp: onload_def)
  show ?thesis
    by (simp add: o read_completes_def)
qed

text \<open>The read of the PNG image, completing with the empty string or \<^verbatim>\<open>null\<close>.\<close>

theorem unusable_result_silent_witness:
  "onload enabled_props png_500k (Some (Str [])) (select png_500k mounted) = select png_500k mounted
   \<and> calls (read_completes enabled_props 0 (Some Null)
              (handleFileChange enabled_props (select png_500k mounted))) = []
   \<and> alerts (read_completes enabled_props 0 (Some Null)
               (handleFileChange enabled_props (select png_500k mounted))) = []"
proof -
  have h: "handleFileChange enabled_props (select png_500k mounted)
           = set_value [] (start_read png_500k (select png_500k mounted))"
    by (rule handleFileChange_png)
  have m: "calls (set_value [] (start_read png_500k (select png_500k mounted))) = []"
    "alerts (set_value [] (start_read png_500k (select png_500k mounted))) = []"
    by (simp_all add: set_value_def start_read_def select_def mounted_def)
  show ?thesis
    using unusable_result_silent [of "Some (Str [])" enabled_props png_500k "select png_500k mounted" 0]
      unusable_result_silent [of "Some Null" enabled_props png_500k
        "handleFileChange enabled_props (select png_500k mounted)" 0]
    by (simp add: h m)
qed

subsection \<open>The value of the input element\<close>

text \<open>
  Claim C7 as stated ("for every invocation") fails: after the text file of 10 KB is
  rejected, the input still holds its path.
\<close>

theorem value_cleared_on_every_invocation_counterexample:
  "chosen_file (input (select txt_10k mounted)) = Some txt_10k
   \<and> input_value (input (handleFileChange enabled_props (select txt_10k mounted))) = fakepath txt_10k
   \<and> input_value (input (handleFileChange enabled_props (select txt_10k mounted))) \<noteq> []"
  using fakepath_not_empty [of txt_10k]
  by (simp add: handleFileChange_txt chosen_file_select alert_def select_fields)

text \<open>
  Claim C7, amended. For every invocation of \<^verbatim>\<open>handleFileChange\<close> that starts a
  read (a file is present, its MIME primary category is \<^verbatim>\<open>image\<close>, its size is
  at most 2,097,152), the value of the input is the empty string afterwards; so choosing
  the identical file again raises a fresh change event, which starts a second read.
\<close>

theorem value_cleared_when_read_initiated:
  assumes "chosen_file (input st) = Some f"
    and "fileType f = Some ''image''"
    and "file_size f \<le> 2097152"
  shows "input_value (input (handleFileChange p st)) = []
       \<and> pending (handleFileChange p st) = pending st @ [f]
       \<and> choose_file p f (handleFileChange p st)
           = handleFileChange p (select f (handleFileChange p st))
       \<and> pending (choose_file p f (handleFileChange p st)) = pending st @ [f, f]"
proof -
  let ?st1 = "handleFileChange p st"
  have h: "?st1 = set_value [] (start_read f st)"
    using assms by (rule handleFileChange_accept)
  have v: "input_value (input ?st1) = []"
    by (simp add: h set_value_def)
  have q: "pending ?st1 = pending st @ [f]"
    by (simp add: h set_value_def start_read_def)
  have c: "choose_file p f ?st1 = handleFileChange p (select f ?st1)"
    using fakepath_not_empty [of f] by (simp add: choose_file_def v)
  have "handleFileChange p (select f ?st1) = set_value [] (start_read f (select f ?st1))"
    using chosen_file_select assms(2,3) by (rule handleFileChange_accept)
  then have "pending (choose_file p f ?st1) = pending ?st1 @ [f]"
    by (simp add: c set_value_def start_read_def select_fields)
  then show ?thesis
    using v q c by simp
qed

text \<open>The PNG image, chosen twice in a row, is read twice.\<close>

theorem value_cleared_when_read_initiated_witness:
  "chosen_file (input (select png_500k mounted)) = Some png_500k
   \<and> fileType png_500k = Some ''image''
   \<and> file_size png_500k \<le> 2097152
   \<and> input_value (input (handleFileChange enabled_props (select png_500k mounted))) = []
   \<and> pending (choose_file enabled_props png_500k
                (handleFileChange enabled_props (select png_500k mounted)))
       = [png_500k, png_500k]"
proof -
  have c: "chosen_file (input (select png_500k mounted)) = Some png_500k"
    by (rule chosen_file_select)
  have t: "fileType png_500k = Some ''image''"
    by (simp add: fileType_examples)
  have s: "file_size png_500k \<le> 2097152"
    by (simp add: png_500k_def)
  have m: "pending (select png_500k mounted) = []"
    by (simp add: select_def mounted_def)
  note w = value_cleared_when_read_initiated [OF c t s, where p = enabled_props]
  from w have a: "input_value (input (handleFileChange enabled_props (select png_500k mounted))) = []"
    by (rule conjunct1)
  from w have b: "pending (choose_file enabled_props png_500k
                     (handleFileChange enabled_props (select png_500k mounted)))
                  = pending (select png_500k mounted) @ [png_500k, png_500k]"
    by blast
  show ?thesis
    using a b c t s by (simp add: m)
qed

text \<open>
  Claim C8. When the change event carries no file (\<^verbatim>\<open>files\<close> is
  \<^verbatim>\<open>null\<close> or empty), \<^verbatim>\<open>handleFileChange\<close> changes nothing: no alert, no
  read, no callback, and the value of the input is as before.
\<close>

theorem absent_file_noop:
  assumes "input_files (input st) = None \<or> input_files (input st) = Some []"
  shows "handleFileChange p st = st"
  using assms by (auto simp: handleFileChange_def chosen_file_def first_of_def)

text \<open>The mounted component with an empty list of files, and with none.\<close>

theorem absent_file_noop_witness:
  "input_files (input mounted) = Some []
   \<and> handleFileChange enabled_props mounted = mounted
   \<and> input_files (input (mounted\<lparr>input := \<lparr>input_value = [], input_files = None\<rparr>\<rparr>)) = None
   \<and> handleFileChange enabled_props (mounted\<lparr>input := \<lparr>input_value = [], input_files = None\<rparr>\<rparr>)
       = mounted\<lparr>input := \<lparr>input_value = [], input_files = None\<rparr>\<rparr>"
proof -
  have a: "input_files (input mounted) = Some []"
    by (simp add: mounted_def)
  have b: "input_files (input (mounted\<lparr>input := \<lparr>input_value = [], input_files = None\<rparr>\<rparr>)) = None"
    by simp
  show ?thesis
    using absent_file_noop [of mounted enabled_props]
      absent_file_noop [of "mounted\<lparr>input := \<lparr>input_value = [], input_files = None\<rparr>\<rparr>" enabled_props]
      a b
    by simp
qed

text \<open>
  Claim C9. The limit is inclusive: an image file of exactly 2,097,152 bytes passes the
  size check and its read is started, without an alert; an image file of 2,097,153 bytes
  is rejected with the alert \<open>msg_too_large\<close>, and no read is started.
\<close>

theorem size_limit_inclusive:
  assumes "chosen_file (input st) = Some f"
    and "fileType f = Some ''image''"
  shows "(file_size f = 2097152 \<longrightarrow>
            handleFileChange p st = set_value [] (start_read f st)
          \<and> pending (handleFileChange p st) = pending st @ [f]
          \<and> alerts (handleFileChange p st) = alerts st)
       \<and> (file_size f = 2097153 \<longrightarrow>
            handleFileChange p st = alert msg_too_large st
          \<and> pending (handleFileChange p st) = pending st
          \<and> alerts (handleFileChange p st) = alerts st @ [msg_too_large])"
proof (intro conjI impI)
  assume "file_size f = 2097152"
  then have "file_size f \<le> 2097152" by simp
  with assms show h: "handleFileChange p st = set_value [] (start_read f st)"
    by (rule handleFileChange_accept)
  show "pending (handleFileChange p st) = pending st @ [f]"
    by (simp add: h set_value_def start_read_def)
  show "alerts (handleFileChange p st) = alerts st"
    by (simp add: h set_value_def start_read_def)
next
  assume "file_size f = 2097153"
  then have "file_size f > 2097152" by simp
  with assms show h: "handleFileChange p st = alert msg_too_large st"
    by (rule handleFileChange_too_large)
  show "pending (handleFileChange p st) = pending st"
    by (simp add: h alert_def)
  show "alerts (handleFileChange p st) = alerts st @ [msg_too_large]"
    by (simp add: h alert_def)
qed

text \<open>The PNG image with its size set to the limit, and to one byte more.\<close>

theorem size_limit_inclusive_witness:
  "chosen_file (input (select (png_500k\<lparr>file_size := 2097152\<rparr>) mounted))
     = Some (png_500k\<lparr>file_size := 2097152\<rparr>)
   \<and> fileType (png_500k\<lparr>file_size := 2097152\<rparr>) = Some ''image''
   \<and> file_size (png_500k\<lparr>file_size := 2097152\<rparr>) = 2097152
   \<and> pending (handleFileChange enabled_props (select (png_500k\<lparr>file_size := 2097152\<rparr>) mounted))
       = [png_500k\<lparr>file_size := 2097152\<rparr>]
   \<and> alerts (handleFileChange enabled_props (select (png_500k\<lparr>file_size := 2097152\<rparr>) mounted))
       = []
   \<and> chosen_file (input (select (png_500k\<lparr>file_size := 2097153\<rparr>) mounted))
       = Some (png_500k\<lparr>file_size := 2097153\<rparr>)
   \<and> fileType (png_500k\<lparr>file_size := 2097153\<rparr>) = Some ''image''
   \<and> file_size (png_500k\<lparr>file_size := 2097153\<rparr>) = 2097153
   \<and> pending (handleFileChange enabled_props (select (png_500k\<lparr>file_size := 2097153\<rparr>) mounted))
       = []
   \<and> alerts (handleFileChange enabled_props (select (png_500k\<lparr>file_size := 2097153\<rparr>) mounted))
       = [msg_too_large]"
proof -
  have t: "fileType (png_500k\<lparr>file_size := n\<rparr>) = Some ''image''" for n
    by (simp add: fileType_def first_of_def png_500k_def)
  have m: "pending (select g mounted) = []" "alerts (select g mounted) = []" for g
    by (simp_all add: select_def mounted_def)
  show ?thesis
    using size_limit_inclusive [where st = "select (png_500k\<lparr>file_size := 2097152\<rparr>) mounted"
          and f = "png_500k\<lparr>file_size := 2097152\<rparr>" and p = enabled_props]
      size_limit_inclusive [where st = "select (png_500k\<lparr>file_size := 2097153\<rparr>) mounted"
          and f = "png_500k\<lparr>file_size := 2097153\<rparr>" and p = enabled_props]
    by (simp add: chosen_file_select t m set_value_def start_read_def alert_def)
qed

text \<open>
  Claim C10. On either validation failure (the MIME primary category is not
  \<^verbatim>\<open>image\<close>, or the size exceeds 2,097,152), \<^verbatim>\<open>handleFileChange\<close>
  leaves the input element as it was: its value is not cleared. So when the input holds
  the path of the rejected file, choosing that same file again raises no change event,
  and nothing happens.
\<close>

theorem rejected_file_value_not_cleared:
  assumes "chosen_file (input st) = Some f"
    and "fileType f \<noteq> Some ''image'' \<or> file_size f > 2097152"
  shows "input (handleFileChange p st) = input st
       \<and> (input_value (input st) = fakepath f \<longrightarrow>
            choose_file p f (handleFileChange p st) = handleFileChange p st)"
proof -
  have "handleFileChange p st = alert msg_only_images st
        \<or> handleFileChange p st = alert msg_too_large st"
    using assms by (auto simp: handleFileChange_def)
  then have i: "input (handleFileChange p st) = input st"
    by (auto simp: alert_def)
  then show ?thesis
    by (simp add: choose_file_def)
qed

text \<open>The rejected text file and the rejected JPEG image, each chosen a second time.\<close>

theorem rejected_file_value_not_cleared_witness:
  "chosen_file (input (select txt_10k mounted)) = Some txt_10k
   \<and> fileType txt_10k \<noteq> Some ''image''
   \<and> chosen_file (input (select jpeg_3mb mounted)) = Some jpeg_3mb
   \<and> file_size jpeg_3mb > 2097152
   \<and> input_value (input (handleFileChange enabled_props (select txt_10k mounted))) = fakepath txt_10k
   \<and> choose_file enabled_props txt_10k (handleFileChange enabled_props (select txt_10k mounted))
       = handleFileChange enabled_props (select txt_10k mounted)
   \<and> input_value (input (handleFileChange enabled_props (select jpeg_3mb mounted))) = fakepath jpeg_3mb
   \<and> choose_file enabled_props jpeg_3mb (handleFileChange enabled_props (select jpeg_3mb mounted))
       = handleFileChange enabled_props (select jpeg_3mb mounted)"
proof -
  have t: "fileType txt_10k \<noteq> Some ''image'' \<or> file_size txt_10k > 2097152"
    by (simp add: fileType_examples)
  have s: "fileType jpeg_3mb \<noteq> Some ''image'' \<or> file_size jpeg_3mb > 2097152"
    by (simp add: jpeg_3mb_def)
  have t': "fileType txt_10k \<noteq> Some ''image''"
    by (simp add: fileType_examples)
  have s': "file_size jpeg_3mb > 2097152"
    by (simp add: jpeg_3mb_def)
  show ?thesis
    using rejected_file_value_not_cleared [where st = "select txt_10k mounted" and f = txt_10k
          and p = enabled_props]
      rejected_file_value_not_cleared [where st = "select jpeg_3mb mounted" and f = jpeg_3mb
          and p = enabled_props]
      t s t' s'
    by (simp add: chosen_file_select select_fields)
qed

end
